theory Spec2Isabelle
  imports Complex_Main "HOL-Library.Log_Nat"
begin

section \<open>JavaScript numbers\<close>

text \<open>
  Every \<^verbatim>\<open>number\<close> of the TypeScript sources is an IEEE 754 binary64 value, and each
  arithmetic operator returns the exact result rounded to the nearest binary64 value, ties
  to the even significand. A finite double is modelled by the real number it denotes;
  \<open>fl\<close> is the rounding that every operator and every decimal literal applies.
  For a positive \<open>x\<close>, \<open>ilog2 x\<close> is its binary exponent and \<open>ulp x\<close> the spacing of
  the doubles around it: 52 binary places below the exponent, and never less than
  \<open>pow2 (- 1074)\<close>, the spacing of the subnormal numbers. Infinities, NaN and the sign
  of zero are not modelled: the scores of this program lie between 0 and 100.
\<close>

definition pow2 :: "int \<Rightarrow> real" where
  "pow2 e = (if 0 \<le> e then 2 ^ nat e else 1 / 2 ^ nat (- e))"

definition ilog2 :: "real \<Rightarrow> int" where
  "ilog2 x = (if 1 \<le> x then bitlen \<lfloor>x\<rfloor> - 1 else - bitlen (\<lceil>1 / x\<rceil> - 1))"

definition round_ties_even :: "real \<Rightarrow> int" where
  "round_ties_even y =
     (let f = \<lfloor>y\<rfloor>; d = y - of_int f
      in if d < 1 / 2 then f
         else if 1 / 2 < d then f + 1
         else if even f then f else f + 1)"

definition ulp :: "real \<Rightarrow> real" where
  "ulp x = pow2 (max (ilog2 x - 52) (- 1074))"

definition fl :: "real \<Rightarrow> real" where
  "fl x = (if x = 0 then 0
           else sgn x * (of_int (round_ties_even (\<bar>x\<bar> / ulp \<bar>x\<bar>)) * ulp \<bar>x\<bar>))"

text \<open>
  \<^verbatim>\<open>Math.round\<close> returns the integer closest to its argument, the one towards
  \<open>+\<infinity>\<close> when two are equally close.
\<close>

definition js_round :: "real \<Rightarrow> int" where
  "js_round x = \<lfloor>x + 1 / 2\<rfloor>"


section \<open>types/index.ts\<close>

text \<open>
  The interfaces of the data model. An optional or nullable field is an \<open>option\<close>
  (\<^verbatim>\<open>null\<close> and \<^verbatim>\<open>undefined\<close> are both \<open>None\<close>: the code tests them with
  \<^verbatim>\<open>!= null\<close> and \<^verbatim>\<open>??\<close> only). The \<^verbatim>\<open>id\<close> fields are named \<open>loan_id\<close> and
  \<open>memo_id\<close>. The \<^verbatim>\<open>created_at\<close> timestamps, taken from the clock when a module is
  loaded, are left out; no function below reads them.
\<close>

datatype LoanStatus = Pending | Approved | Rejected

datatype AgentType = Sales | Risk | Compliance | Moderator

record ExtractionResult =
  revenue :: "real option"
  debt :: "real option"
  dscr :: "real option"
  collateral_present :: "bool option"
  compliance_keywords :: "string list option"

record AgentMemo =
  memo_id :: string
  agent_type :: AgentType
  content :: string
  risk_score :: "real option"

record LoanApplication =
  loan_id :: string
  company_name :: string
  industry :: string
  requested_amount :: real
  extracted_financials :: "ExtractionResult option"
  status :: LoanStatus
  workflow_state :: string
  final_score :: "real option"
  compliance_flag :: bool
  confidence_score :: "real option"
  agent_memos :: "AgentMemo list option"

record CategoryScore =
  score :: real
  evidence :: "string list"

record RiskMatrix =
  financial_risk :: CategoryScore
  growth_strength :: CategoryScore
  regulatory_risk :: CategoryScore
  reputation_risk :: CategoryScore


section \<open>lib/utils.ts\<close>

text \<open>
  \<^verbatim>\<open>confidenceFromVariance(salesScore, riskScore)\<close>: the variance
  \<^verbatim>\<open>Math.abs(salesScore - riskScore)\<close>, the four branches that assign \<^verbatim>\<open>confidence\<close>,
  and the result \<^verbatim>\<open>Math.round(confidence * 100) / 100\<close>. The literals \<^verbatim>\<open>0.01\<close>,
  \<^verbatim>\<open>0.9\<close>, \<^verbatim>\<open>0.02\<close>, \<^verbatim>\<open>0.7\<close>, \<^verbatim>\<open>0.1\<close> and \<^verbatim>\<open>0.005\<close> are the doubles nearest
  to these decimals; \<^verbatim>\<open>1.0\<close>, \<^verbatim>\<open>0.5\<close> and the integers are exact.
\<close>

definition confidenceFromVariance :: "real \<Rightarrow> real \<Rightarrow> real" where
  "confidenceFromVariance salesScore riskScore =
     (let variance = \<bar>fl (salesScore - riskScore)\<bar>;
          confidence =
            (if variance \<le> 10 then fl (1 - fl (fl (1 / 100) * variance))
             else if variance \<le> 20 then fl (fl (9 / 10) - fl (fl (2 / 100) * fl (variance - 10)))
             else if variance \<le> 40 then fl (fl (7 / 10) - fl (fl (1 / 100) * fl (variance - 20)))
             else max (fl (1 / 10)) (fl (1 / 2 - fl (fl (5 / 1000) * fl (variance - 40)))))
      in fl (of_int (js_round (fl (confidence * 100))) / 100))"


section \<open>lib/demo-cases.ts\<close>

record DemoCase =
  loan :: LoanApplication
  memos :: "AgentMemo list"
  riskMatrix :: RiskMatrix

text \<open>
  \<^verbatim>\<open>applyConfidence\<close> assigns \<^verbatim>\<open>c.loan.confidence_score\<close> in place and returns \<open>c\<close>;
  the model returns the updated case. \<^verbatim>\<open>Array.prototype.find\<close> returns the first memo
  of the role, and \<^verbatim>\<open>salesMemo?.risk_score != null\<close> is false when the memo or its score
  is missing.
\<close>

definition applyConfidence :: "DemoCase \<Rightarrow> DemoCase" where
  "applyConfidence c =
     (if compliance_flag (loan c)
      then c\<lparr>loan := (loan c)\<lparr>confidence_score := Some 1\<rparr>\<rparr>
      else
        let salesMemo = find (\<lambda>m. agent_type m = Sales) (memos c);
            riskMemo = find (\<lambda>m. agent_type m = Risk) (memos c)
        in (case (Option.bind salesMemo risk_score, Option.bind riskMemo risk_score) of
              (Some s, Some r) \<Rightarrow>
                c\<lparr>loan := (loan c)\<lparr>confidence_score := Some (confidenceFromVariance s r)\<rparr>\<rparr>
            | _ \<Rightarrow> c))"

text \<open>The four literal cases, before \<^verbatim>\<open>.map(applyConfidence)\<close>.\<close>

definition case_1 :: DemoCase where
  "case_1 =
     \<lparr>loan =
        \<lparr>loan_id = ''case-1'', company_name = ''TechStart Inc'', industry = ''Technology'',
         requested_amount = 5000000,
         extracted_financials =
           Some \<lparr>revenue = Some 25000000, debt = Some 8000000, dscr = Some (fl (11 / 10)),
                 collateral_present = Some False, compliance_keywords = Some []\<rparr>,
         status = Rejected, workflow_state = ''FINALIZED'', final_score = Some 16,
         compliance_flag = False, confidence_score = None, agent_memos = None\<rparr>,
      memos =
        [\<lparr>memo_id = ''c1-1'', agent_type = Sales,
          content = ''Strong growth trajectory. Revenue $25M with expansion potential. Recommend approval.'',
          risk_score = Some 85\<rparr>,
         \<lparr>memo_id = ''c1-2'', agent_type = Risk,
          content = ''DSCR weak at 1.1, no collateral. High risk profile. Skeptical.'',
          risk_score = Some 45\<rparr>,
         \<lparr>memo_id = ''c1-3'', agent_type = Compliance,
          content = ''No compliance issues identified.'',
          risk_score = Some 90\<rparr>,
         \<lparr>memo_id = ''c1-4'', agent_type = Moderator,
          content = ''Moderator synthesis: Sales/Risk divergence > 20. Blended view suggests caution despite growth.'',
          risk_score = Some 62\<rparr>],
      riskMatrix =
        \<lparr>financial_risk =
           \<lparr>score = 6, evidence = [''DSCR 1.10 below 1.25 typical covenant'', ''Debt/Revenue 0.3x'']\<rparr>,
         growth_strength =
           \<lparr>score = 7,
            evidence = [''Revenue $25.0M solid base'', ''DSCR 1.10 constrains growth capacity'']\<rparr>,
         regulatory_risk = \<lparr>score = 1, evidence = [''No compliance keywords detected'']\<rparr>,
         reputation_risk = \<lparr>score = 1, evidence = [''No reputation risk keywords detected'']\<rparr>\<rparr>\<rparr>"

definition case_2 :: DemoCase where
  "case_2 =
     \<lparr>loan =
        \<lparr>loan_id = ''case-2'', company_name = ''ManufacturingCo Ltd'', industry = ''Manufacturing'',
         requested_amount = 10000000,
         extracted_financials =
           Some \<lparr>revenue = Some 50000000, debt = Some 12000000, dscr = Some (fl (14 / 10)),
                 collateral_present = Some True, compliance_keywords = Some [''grey list'']\<rparr>,
         status = Rejected, workflow_state = ''FINALIZED'', final_score = Some 0,
         compliance_flag = True, confidence_score = None, agent_memos = None\<rparr>,
      memos =
        [\<lparr>memo_id = ''c2-1'', agent_type = Sales,
          content = ''Strong assets and revenue base. Solid manufacturing profile.'',
          risk_score = Some 75\<rparr>,
         \<lparr>memo_id = ''c2-2'', agent_type = Risk,
          content = ''Solid financial profile. DSCR adequate, collateral present.'',
          risk_score = Some 70\<rparr>,
         \<lparr>memo_id = ''c2-3'', agent_type = Compliance,
          content = ''Director on grey list. Immediate block. Compliance veto.'',
          risk_score = Some 15\<rparr>],
      riskMatrix =
        \<lparr>financial_risk =
           \<lparr>score = 4,
            evidence = [''DSCR 1.40 adequate buffer'', ''Debt/Revenue 0.2x'',
                        ''Collateral present reduces financial risk'']\<rparr>,
         growth_strength =
           \<lparr>score = 9,
            evidence = [''Revenue $50M indicates scale'', ''DSCR 1.40 suggests strong cash flow'',
                        ''Collateral supports financing capacity'']\<rparr>,
         regulatory_risk = \<lparr>score = 3, evidence = [''Keyword detected: grey list'']\<rparr>,
         reputation_risk = \<lparr>score = 3, evidence = [''Keyword detected: grey list'']\<rparr>\<rparr>\<rparr>"

definition case_3 :: DemoCase where
  "case_3 =
     \<lparr>loan =
        \<lparr>loan_id = ''case-3'', company_name = ''StrugglingBiz LLC'', industry = ''Retail'',
         requested_amount = 1500000,
         extracted_financials =
           Some \<lparr>revenue = Some 2000000, debt = Some 4000000, dscr = Some (fl (8 / 10)),
                 collateral_present = Some False, compliance_keywords = Some []\<rparr>,
         status = Rejected, workflow_state = ''FINALIZED'', final_score = Some 12,
         compliance_flag = False, confidence_score = None, agent_memos = None\<rparr>,
      memos =
        [\<lparr>memo_id = ''c3-1'', agent_type = Sales,
          content = ''Growth potential in niche market. Some upside.'',
          risk_score = Some 55\<rparr>,
         \<lparr>memo_id = ''c3-2'', agent_type = Risk,
          content = ''Weak DSCR 0.8, high leverage (2x Debt/Revenue). Reject.'',
          risk_score = Some 25\<rparr>,
         \<lparr>memo_id = ''c3-3'', agent_type = Compliance,
          content = ''Clean. No compliance flags.'',
          risk_score = Some 85\<rparr>],
      riskMatrix =
        \<lparr>financial_risk =
           \<lparr>score = 9,
            evidence = [''DSCR 0.80 below 1.0 (cannot cover debt service)'',
                        ''Debt/Revenue 2.0x moderate leverage'']\<rparr>,
         growth_strength =
           \<lparr>score = 4, evidence = [''Revenue $2.0M'', ''DSCR 0.80 constrains growth capacity'']\<rparr>,
         regulatory_risk = \<lparr>score = 1, evidence = [''No compliance keywords detected'']\<rparr>,
         reputation_risk = \<lparr>score = 1, evidence = [''No reputation risk keywords detected'']\<rparr>\<rparr>\<rparr>"

definition case_4 :: DemoCase where
  "case_4 =
     \<lparr>loan =
        \<lparr>loan_id = ''case-4'', company_name = ''MidCap Industries'', industry = ''Manufacturing'',
         requested_amount = 3000000,
         extracted_financials =
           Some \<lparr>revenue = Some 15000000, debt = Some 5000000, dscr = Some (fl (135 / 100)),
                 collateral_present = Some True, compliance_keywords = Some []\<rparr>,
         status = Approved, workflow_state = ''FINALIZED'', final_score = Some (fl (204 / 10)),
         compliance_flag = False, confidence_score = None, agent_memos = None\<rparr>,
      memos =
        [\<lparr>memo_id = ''c4-1'', agent_type = Sales,
          content = ''Healthy profile. Strong DSCR, collateral. Approve.'',
          risk_score = Some 86\<rparr>,
         \<lparr>memo_id = ''c4-2'', agent_type = Risk,
          content = ''Strong DSCR 1.35, manageable leverage. Proceed.'',
          risk_score = Some 35\<rparr>,
         \<lparr>memo_id = ''c4-3'', agent_type = Compliance,
          content = ''No flags. Clean.'',
          risk_score = Some 88\<rparr>],
      riskMatrix =
        \<lparr>financial_risk =
           \<lparr>score = 4,
            evidence = [''DSCR 1.35 adequate buffer'', ''Debt/Revenue 0.3x'',
                        ''Collateral present reduces financial risk'']\<rparr>,
         growth_strength =
           \<lparr>score = 8,
            evidence = [''Revenue $15.0M solid base'', ''DSCR 1.35 supports growth capacity'',
                        ''Collateral supports financing capacity'']\<rparr>,
         regulatory_risk = \<lparr>score = 1, evidence = [''No compliance keywords detected'']\<rparr>,
         reputation_risk = \<lparr>score = 1, evidence = [''No reputation risk keywords detected'']\<rparr>\<rparr>\<rparr>"

definition DEMO_CASES :: "DemoCase list" where
  "DEMO_CASES = map applyConfidence [case_1, case_2, case_3, case_4]"


section \<open>The dashboard page\<close>

text \<open>
  \<^verbatim>\<open>MOCK_LOANS\<close>, the loans the dashboard shows when the store is empty. They carry no
  \<^verbatim>\<open>extracted_financials\<close> and no \<^verbatim>\<open>agent_memos\<close>.
\<close>

definition MOCK_LOANS :: "LoanApplication list" where
  "MOCK_LOANS =
     [\<lparr>loan_id = ''demo-1'', company_name = ''Acme Corp'', industry = ''Manufacturing'',
       requested_amount = 2500000, extracted_financials = None,
       status = Approved, workflow_state = ''FINALIZED'', final_score = Some (fl (284 / 10)),
       compliance_flag = False, confidence_score = Some (confidenceFromVariance 80 72),
       agent_memos = None\<rparr>,
      \<lparr>loan_id = ''demo-2'', company_name = ''Beta Industries'', industry = ''Technology'',
       requested_amount = 1200000, extracted_financials = None,
       status = Pending, workflow_state = ''INITIAL_REVIEW'', final_score = None,
       compliance_flag = False, confidence_score = None,
       agent_memos = None\<rparr>,
      \<lparr>loan_id = ''demo-3'', company_name = ''Gamma Holdings'', industry = ''Finance'',
       requested_amount = 5000000, extracted_financials = None,
       status = Rejected, workflow_state = ''FINALIZED'', final_score = Some 12,
       compliance_flag = True, confidence_score = Some 1,
       agent_memos = None\<rparr>]"


section \<open>The decision page\<close>


definition FALLBACK_MEMOS :: "AgentMemo list" where
  "FALLBACK_MEMOS =
     [\<lparr>memo_id = ''1'', agent_type = Sales,
       content = ''Strong revenue growth and collateral support. Recommend approval.'',
       risk_score = Some 72\<rparr>,
      \<lparr>memo_id = ''2'', agent_type = Risk,
       content = ''DSCR adequate. Leverage moderate. Proceed with covenant monitoring.'',
       risk_score = Some 58\<rparr>,
      \<lparr>memo_id = ''3'', agent_type = Compliance,
       content = ''No compliance issues identified. Clean screening.'',
       risk_score = Some 88\<rparr>,
      \<lparr>memo_id = ''4'', agent_type = Moderator,
       content = ''Consensus reached. Risk-adjusted score supports approval.'',
       risk_score = Some 68\<rparr>]"

definition FALLBACK_RISK :: RiskMatrix where
  "FALLBACK_RISK =
     \<lparr>financial_risk = \<lparr>score = 4, evidence = [''DSCR 1.25 adequate buffer'', ''Debt/Revenue 0.4x'']\<rparr>,
      growth_strength =
        \<lparr>score = 8, evidence = [''Revenue $12M solid base'', ''Collateral supports capacity'']\<rparr>,
      regulatory_risk = \<lparr>score = 1, evidence = [''No compliance keywords'']\<rparr>,
      reputation_risk = \<lparr>score = 1, evidence = [''No reputation keywords'']\<rparr>\<rparr>"



section \<open>components/DebateTimeline\<close>

text \<open>
  \<^verbatim>\<open>groupIntoRounds\<close>. The loop over \<^verbatim>\<open>memos\<close> carries the \<^verbatim>\<open>result\<close> array and the
  \<^verbatim>\<open>agentCounts\<close> dictionary; \<open>group_step\<close> is its body. A key that is missing reads
  as \<^verbatim>\<open>undefined\<close>, which \<^verbatim>\<open>|| 0\<close> turns into 0. The field \<^verbatim>\<open>round\<close> is named
  \<open>round_no\<close>.
\<close>

record GroupedMemo =
  round_no :: nat
  memo :: AgentMemo

definition group_step ::
  "GroupedMemo list \<times> (AgentType \<rightharpoonup> nat) \<Rightarrow> AgentMemo \<Rightarrow> GroupedMemo list \<times> (AgentType \<rightharpoonup> nat)"
where
  "group_step st m =
     (case st of (result, agentCounts) \<Rightarrow>
        let count = (case agentCounts (agent_type m) of None \<Rightarrow> 0 | Some n \<Rightarrow> n)
        in (result @ [\<lparr>round_no = count, memo = m\<rparr>], agentCounts(agent_type m \<mapsto> count + 1)))"

definition groupIntoRounds :: "AgentMemo list \<Rightarrow> GroupedMemo list" where
  "groupIntoRounds ms =
     (if length ms = 0 then [] else fst (foldl group_step ([], Map.empty) ms))"


section \<open>components/RiskPanel\<close>

text \<open>
  \<^verbatim>\<open>aggregateRisk\<close> and the value \<^verbatim>\<open>overallRisk\<close> that the panel hands to its gauge,
  \<^verbatim>\<open>Math.min(10, Math.max(1, aggregateRisk(riskMatrix)))\<close>.
\<close>

definition aggregateRisk :: "RiskMatrix \<Rightarrow> real" where
  "aggregateRisk rm =
     (let r = fl (fl (fl (score (financial_risk rm) + score (regulatory_risk rm))
                      + score (reputation_risk rm)) / 3);
          g = score (growth_strength rm)
      in of_int (js_round (fl (fl (fl (fl (r * fl (6 / 10)) - fl (g * fl (1 / 10))) + 5)
                                / fl (15 / 10)))))"

definition overallRisk :: "RiskMatrix \<Rightarrow> real" where
  "overallRisk rm = min 10 (max 1 (aggregateRisk rm))"


section \<open>components/DecisionSummary\<close>

text \<open>
  The line under the final score: \<^verbatim>\<open>loan.final_score >= 20 ? "above" : "below"\<close>, shown
  when the score is not null. The status badge shows \<^verbatim>\<open>loan.status\<close> as it is.
\<close>

definition thresholdSide :: "LoanApplication \<Rightarrow> string option" where
  "thresholdSide l =
     (case final_score l of
        None \<Rightarrow> None
      | Some s \<Rightarrow> Some (if 20 \<le> s then ''above'' else ''below''))"


section \<open>The confidence law of the specification\<close>

text \<open>
  The piecewise law as the specification writes it, in exact arithmetic, with
  \<open>v = |sales - risk|\<close> and the result rounded half-up to two decimal
  places. It is the reference that \<open>confidenceFromVariance\<close> is compared with.
\<close>

definition confidence_law :: "real \<Rightarrow> real \<Rightarrow> real" where
  "confidence_law sales risk =
     (let v = \<bar>sales - risk\<bar>;
          c = (if v \<le> 10 then 1 - (1 / 100) * v
               else if v \<le> 20 then 9 / 10 - (2 / 100) * (v - 10)
               else if v \<le> 40 then 7 / 10 - (1 / 100) * (v - 20)
               else max (1 / 10) (1 / 2 - (5 / 1000) * (v - 40)))
      in of_int \<lfloor>c * 100 + 1 / 2\<rfloor> / 100)"


section \<open>The two stages of the confidence computation\<close>

text \<open>
  For the proofs, the body of \<open>confidenceFromVariance\<close> is read in two stages:
  \<open>banded v\<close> is the value assigned to \<^verbatim>\<open>confidence\<close> at variance \<open>v\<close>, and
  \<open>round2 c\<close> is \<^verbatim>\<open>Math.round(c * 100) / 100\<close>.
\<close>

definition banded :: "real \<Rightarrow> real" where
  "banded variance =
     (if variance \<le> 10 then fl (1 - fl (fl (1 / 100) * variance))
      else if variance \<le> 20 then fl (fl (9 / 10) - fl (fl (2 / 100) * fl (variance - 10)))
      else if variance \<le> 40 then fl (fl (7 / 10) - fl (fl (1 / 100) * fl (variance - 20)))
      else max (fl (1 / 10)) (fl (1 / 2 - fl (fl (5 / 1000) * fl (variance - 40)))))"

definition round2 :: "real \<Rightarrow> real" where
  "round2 c = fl (of_int (js_round (fl (c * 100))) / 100)"


text \<open>
  \<open>agrees_with_law v\<close>: at variance \<open>v\<close> the code returns the double nearest to the
  value of the law.
\<close>

definition agrees_with_law :: "real \<Rightarrow> bool" where
  "agrees_with_law v \<longleftrightarrow> round2 (banded v) = fl (confidence_law v 0)"


section \<open>Rounding: basic facts\<close>

lemma fl_zero: "fl 0 = 0"
  by (simp add: fl_def)

lemma fl_minus: "fl (- x) = - fl x"
  by (simp add: fl_def sgn_minus)


lemma pow2_powi: "pow2 e = 2 powi e"
  by (simp add: pow2_def power_int_def field_simps)

lemma pow2_pos: "0 < pow2 e"
  by (simp add: pow2_powi)

lemma pow2_add: "pow2 (a + b) = pow2 a * pow2 b"
  by (simp add: pow2_powi power_int_add)

lemma pow2_mono: "a \<le> b \<Longrightarrow> pow2 a \<le> pow2 b"
  by (simp add: pow2_powi power_int_increasing)

lemma pow2_minus: "pow2 (- e) = inverse (pow2 e)"
  by (simp add: pow2_powi power_int_minus)

lemma pow2_nat: "0 \<le> e \<Longrightarrow> pow2 e = of_int (2 ^ nat e)"
  by (simp add: pow2_def)

lemma ilog2_bounds:
  assumes "0 < x"
  shows "pow2 (ilog2 x) \<le> x \<and> x < pow2 (ilog2 x + 1)"
proof (cases "1 \<le> x")
  case True
  then have fpos: "0 < \<lfloor>x\<rfloor>" by linarith
  from bitlen_bounds [OF fpos]
  have lo: "2 ^ nat (bitlen \<lfloor>x\<rfloor> - 1) \<le> \<lfloor>x\<rfloor>" and hi: "\<lfloor>x\<rfloor> < 2 ^ nat (bitlen \<lfloor>x\<rfloor>)"
    by simp_all
  have b1: "1 \<le> bitlen \<lfloor>x\<rfloor>"
    using fpos by (simp add: bitlen_alt_def)
  have "of_int (2 ^ nat (bitlen \<lfloor>x\<rfloor> - 1)) \<le> x"
    using lo by (simp only: le_floor_iff)
  then have A: "pow2 (bitlen \<lfloor>x\<rfloor> - 1) \<le> x"
    using b1 by (simp add: pow2_nat)
  have "x < of_int (2 ^ nat (bitlen \<lfloor>x\<rfloor>))"
    using hi by (simp only: floor_less_iff)
  then have B: "x < pow2 (bitlen \<lfloor>x\<rfloor>)"
    using b1 by (simp add: pow2_nat)
  from A B True show ?thesis
    by (simp add: ilog2_def)
next
  case False
  define m where "m = \<lceil>1 / x\<rceil>"
  define k where "k = bitlen (m - 1)"
  from False assms have y1: "1 < 1 / x" by simp
  then have m2: "2 \<le> m" unfolding m_def by linarith
  then have mpos: "0 < m - 1" by simp
  from bitlen_bounds [OF mpos]
  have lo: "2 ^ nat (k - 1) \<le> m - 1" and hi: "m - 1 < 2 ^ nat k"
    by (simp_all add: k_def)
  have b1: "1 \<le> k"
    using mpos by (simp add: bitlen_alt_def k_def)
  have "m \<le> 2 ^ nat k" using hi by simp
  then have "1 / x \<le> of_int (2 ^ nat k)"
    unfolding m_def by (simp only: ceiling_le_iff)
  then have "1 / x \<le> pow2 k"
    using b1 by (simp add: pow2_nat)
  then have "1 \<le> pow2 k * x"
    using assms by (simp add: field_simps)
  then have "inverse (pow2 k) \<le> x"
    using pow2_pos [of k] by (simp add: field_simps)
  then have A: "pow2 (- k) \<le> x"
    by (simp add: pow2_minus)
  have "2 ^ nat (k - 1) < m" using lo by simp
  then have "of_int (2 ^ nat (k - 1)) < 1 / x"
    unfolding m_def by (simp only: less_ceiling_iff)
  then have "pow2 (k - 1) < 1 / x"
    using b1 by (simp add: pow2_nat)
  then have "pow2 (k - 1) * x < 1"
    using assms by (simp add: field_simps)
  then have "x < inverse (pow2 (k - 1))"
    using pow2_pos [of "k - 1"] by (simp add: field_simps)
  then have B: "x < pow2 (- k + 1)"
    using pow2_minus [of "k - 1"] by simp
  from A B False show ?thesis
    by (simp add: ilog2_def m_def k_def)
qed

lemma round_ties_even_of_int: "round_ties_even (of_int n) = n"
  by (simp add: round_ties_even_def)

lemma round_ties_even_cases:
  "round_ties_even y = \<lfloor>y\<rfloor> \<or> round_ties_even y = \<lfloor>y\<rfloor> + 1"
  by (simp add: round_ties_even_def Let_def)

lemma round_ties_even_mono:
  assumes "a \<le> b"
  shows "round_ties_even a \<le> round_ties_even b"
proof (cases "\<lfloor>a\<rfloor> = \<lfloor>b\<rfloor>")
  case True
  with assms show ?thesis
    by (auto simp add: round_ties_even_def Let_def)
next
  case False
  with assms have "\<lfloor>a\<rfloor> + 1 \<le> \<lfloor>b\<rfloor>"
    using floor_mono [OF assms] by linarith
  moreover have "round_ties_even a \<le> \<lfloor>a\<rfloor> + 1"
    using round_ties_even_cases [of a] by linarith
  moreover have "\<lfloor>b\<rfloor> \<le> round_ties_even b"
    using round_ties_even_cases [of b] by linarith
  ultimately show ?thesis by linarith
qed

lemma ulp_pos: "0 < ulp x"
  by (simp add: ulp_def pow2_pos)

lemma fl_pos_eq: "0 < x \<Longrightarrow> fl x = of_int (round_ties_even (x / ulp x)) * ulp x"
  by (simp add: fl_def)

lemma fl_le_grid:
  assumes "0 < x" and "x \<le> of_int n * ulp x"
  shows "fl x \<le> of_int n * ulp x"
proof -
  have "x / ulp x \<le> of_int n"
    using assms(2) ulp_pos [of x] by (simp add: field_simps)
  then have "round_ties_even (x / ulp x) \<le> n"
    using round_ties_even_mono [of "x / ulp x" "of_int n"] by (simp add: round_ties_even_of_int)
  then have "real_of_int (round_ties_even (x / ulp x)) \<le> of_int n"
    by simp
  then show ?thesis
    using ulp_pos [of x] assms(1) by (simp add: fl_pos_eq mult_right_mono)
qed

lemma fl_ge_grid:
  assumes "0 < x" and "of_int n * ulp x \<le> x"
  shows "of_int n * ulp x \<le> fl x"
proof -
  have "of_int n \<le> x / ulp x"
    using assms(2) ulp_pos [of x] by (simp add: field_simps)
  then have "n \<le> round_ties_even (x / ulp x)"
    using round_ties_even_mono [of "of_int n" "x / ulp x"] by (simp add: round_ties_even_of_int)
  then have "real_of_int n \<le> of_int (round_ties_even (x / ulp x))"
    by simp
  then show ?thesis
    using ulp_pos [of x] assms(1) by (simp add: fl_pos_eq mult_right_mono)
qed

lemma ilog2_mono:
  assumes "0 < x" and "x \<le> y"
  shows "ilog2 x \<le> ilog2 y"
proof (rule ccontr)
  assume "\<not> ilog2 x \<le> ilog2 y"
  then have "ilog2 y + 1 \<le> ilog2 x" by simp
  then have "pow2 (ilog2 y + 1) \<le> pow2 (ilog2 x)" by (rule pow2_mono)
  moreover have "pow2 (ilog2 x) \<le> x" using ilog2_bounds [OF assms(1)] by simp
  moreover have "y < pow2 (ilog2 y + 1)" using ilog2_bounds [of y] assms by simp
  ultimately show False using assms(2) by linarith
qed

lemma pow2_diff_int:
  assumes "b \<le> a"
  shows "pow2 a = of_int (2 ^ nat (a - b)) * pow2 b"
proof -
  have "pow2 a = pow2 ((a - b) + b)" by simp
  also have "\<dots> = pow2 (a - b) * pow2 b" by (rule pow2_add)
  also have "pow2 (a - b) = of_int (2 ^ nat (a - b))"
    using assms by (simp add: pow2_nat)
  finally show ?thesis .
qed

lemma fl_mono_pos:
  assumes "0 < x" and "x \<le> y"
  shows "fl x \<le> fl y"
proof -
  have ypos: "0 < y" using assms by simp
  define kx where "kx = max (ilog2 x - 52) (- 1074)"
  define ky where "ky = max (ilog2 y - 52) (- 1074)"
  have ux: "ulp x = pow2 kx" and uy: "ulp y = pow2 ky"
    by (simp_all add: ulp_def kx_def ky_def)
  have kle: "kx \<le> ky"
    using ilog2_mono [OF assms] by (simp add: kx_def ky_def)
  show ?thesis
  proof (cases "kx = ky")
    case True
    then have "ulp x = ulp y" by (simp add: ux uy)
    moreover have "x / ulp y \<le> y / ulp y"
      using assms(2) ulp_pos [of y] by (simp add: divide_right_mono)
    ultimately show ?thesis
      using round_ties_even_mono [of "x / ulp y" "y / ulp y"] ulp_pos [of y] assms(1) ypos
      by (simp add: fl_pos_eq mult_right_mono)
  next
    case False
    with kle have klt: "kx < ky" by simp
    then have ky_eq: "ky = ilog2 y - 52" and ex_lt: "ilog2 x < ilog2 y"
      by (simp_all add: kx_def ky_def max_def split: if_splits)
    define B where "B = pow2 (ilog2 y)"
    have Bx: "B = of_int (2 ^ nat (ilog2 y - kx)) * ulp x"
      unfolding B_def ux using klt ky_eq by (intro pow2_diff_int) simp
    have By: "B = of_int (2 ^ nat (ilog2 y - ky)) * ulp y"
      unfolding B_def uy using ky_eq by (intro pow2_diff_int) simp
    have "x < pow2 (ilog2 x + 1)" using ilog2_bounds [OF assms(1)] by simp
    also have "\<dots> \<le> B" unfolding B_def using ex_lt by (intro pow2_mono) simp
    finally have "x \<le> B" by simp
    then have "fl x \<le> B"
      using fl_le_grid [OF assms(1), of "2 ^ nat (ilog2 y - kx)"] by (simp only: Bx)
    moreover have "B \<le> y" unfolding B_def using ilog2_bounds [OF ypos] by simp
    then have "B \<le> fl y"
      using fl_ge_grid [OF ypos, of "2 ^ nat (ilog2 y - ky)"] by (simp only: By)
    ultimately show ?thesis by simp
  qed
qed

lemma fl_nonneg: "0 \<le> x \<Longrightarrow> 0 \<le> fl x"
proof (cases "x = 0")
  case True
  then show ?thesis by (simp add: fl_def)
next
  case False
  assume "0 \<le> x"
  with False have "0 < x" by simp
  then show ?thesis
    using fl_ge_grid [of x 0] by simp
qed

lemma fl_mono:
  assumes "x \<le> y"
  shows "fl x \<le> fl y"
proof -
  consider "0 < x" | "x \<le> 0" "0 \<le> y" | "y < 0" by linarith
  then show ?thesis
  proof cases
    case 1
    then show ?thesis using assms by (rule fl_mono_pos)
  next
    case 2
    have "0 \<le> fl (- x)" using 2(1) by (intro fl_nonneg) simp
    then have "fl x \<le> 0" by (simp add: fl_minus)
    moreover have "0 \<le> fl y" using 2(2) by (rule fl_nonneg)
    ultimately show ?thesis by simp
  next
    case 3
    then have "fl (- y) \<le> fl (- x)"
      using assms by (intro fl_mono_pos) simp_all
    then show ?thesis by (simp add: fl_minus)
  qed
qed

lemma abs_fl: "\<bar>fl x\<bar> = fl \<bar>x\<bar>"
proof (cases "0 \<le> x")
  case True
  then show ?thesis using fl_nonneg [of x] by simp
next
  case False
  then have "0 \<le> fl (- x)" by (intro fl_nonneg) simp
  with False show ?thesis by (simp add: fl_minus)
qed

lemma js_round_mono: "a \<le> b \<Longrightarrow> js_round a \<le> js_round b"
  by (simp add: js_round_def floor_mono)

lemma round2_mono:
  assumes "a \<le> b"
  shows "round2 a \<le> round2 b"
proof -
  have "fl (a * 100) \<le> fl (b * 100)"
    using assms by (intro fl_mono) simp
  then have "js_round (fl (a * 100)) \<le> js_round (fl (b * 100))"
    by (rule js_round_mono)
  then show ?thesis
    unfolding round2_def by (intro fl_mono) (simp add: divide_right_mono)
qed

lemma confidenceFromVariance_staged:
  "confidenceFromVariance s r = round2 (banded \<bar>fl (s - r)\<bar>)"
  by (simp only: confidenceFromVariance_def banded_def round2_def Let_def)


section \<open>Evaluating the rounding on literals\<close>

text \<open>The equations that let the simplifier compute \<open>fl\<close> on a numeral.\<close>

lemmas fl_eval = fl_def ulp_def ilog2_def round_ties_even_def Let_def compute_bitlen pow2_def

lemma literals_nonneg:
  "0 \<le> fl (1 / 100)" "0 \<le> fl (2 / 100)" "0 \<le> fl (5 / 1000)"
  by (simp_all add: fl_nonneg)

lemma at_0: "round2 (banded 0) = 1"
  by (simp add: banded_def round2_def js_round_def fl_eval)

lemma at_10: "round2 (banded 10) = 8106479329266893 / 9007199254740992"
  by (simp add: banded_def round2_def js_round_def fl_eval)

lemma at_20: "round2 (banded 20) = 3152519739159347 / 4503599627370496"
  by (simp add: banded_def round2_def js_round_def fl_eval)

lemma at_40: "round2 (banded 40) = 1 / 2"
  by (simp add: banded_def round2_def js_round_def fl_eval)

lemma top_2: "round2 (fl (fl (9 / 10))) = 8106479329266893 / 9007199254740992"
  by (simp add: round2_def js_round_def fl_eval)

lemma top_3: "round2 (fl (fl (7 / 10))) = 3152519739159347 / 4503599627370496"
  by (simp add: round2_def js_round_def fl_eval)

lemma top_4: "round2 (max (fl (1 / 10)) (fl (1 / 2))) = 1 / 2"
  by (simp add: round2_def js_round_def fl_eval)

lemma floor_4: "round2 (fl (1 / 10)) = 3602879701896397 / 36028797018963968"
  by (simp add: round2_def js_round_def fl_eval)


section \<open>Confidence never rises with the variance\<close>

text \<open>Inside one branch the value assigned to \<^verbatim>\<open>confidence\<close> falls as the variance grows.\<close>

lemma banded_mono_1: "v1 \<le> v2 \<Longrightarrow> v2 \<le> 10 \<Longrightarrow> banded v2 \<le> banded v1"
  using literals_nonneg(1)
  by (auto simp add: banded_def intro!: fl_mono mult_left_mono)

lemma banded_mono_2: "10 < v1 \<Longrightarrow> v1 \<le> v2 \<Longrightarrow> v2 \<le> 20 \<Longrightarrow> banded v2 \<le> banded v1"
  using literals_nonneg(2)
  by (auto simp add: banded_def intro!: fl_mono mult_left_mono)

lemma banded_mono_3: "20 < v1 \<Longrightarrow> v1 \<le> v2 \<Longrightarrow> v2 \<le> 40 \<Longrightarrow> banded v2 \<le> banded v1"
  using literals_nonneg(1)
  by (auto simp add: banded_def intro!: fl_mono mult_left_mono)

lemma banded_mono_4: "40 < v1 \<Longrightarrow> v1 \<le> v2 \<Longrightarrow> banded v2 \<le> banded v1"
proof -
  assume a: "40 < v1" "v1 \<le> v2"
  have "fl (1 / 2 - fl (fl (5 / 1000) * fl (v2 - 40))) \<le> fl (1 / 2 - fl (fl (5 / 1000) * fl (v1 - 40)))"
    using literals_nonneg(3) a by (auto intro!: fl_mono mult_left_mono)
  then show ?thesis
    using a by (simp add: banded_def max.coboundedI2)
qed

text \<open>
  Across a breakpoint: every variance above 10, 20 or 40 gives at most the confidence at
  that breakpoint (0.9, 0.7, 0.5), and every variance up to it gives at least that much.
\<close>

lemma above_40: "40 < v \<Longrightarrow> round2 (banded v) \<le> 1 / 2"
proof -
  assume a: "40 < v"
  have "0 \<le> fl (fl (5 / 1000) * fl (v - 40))"
    using a by (intro fl_nonneg mult_nonneg_nonneg) simp_all
  then have "fl (1 / 2 - fl (fl (5 / 1000) * fl (v - 40))) \<le> fl (1 / 2)"
    by (intro fl_mono) simp
  then have "banded v \<le> max (fl (1 / 10)) (fl (1 / 2))"
    using a by (simp add: banded_def max.coboundedI2)
  then have "round2 (banded v) \<le> round2 (max (fl (1 / 10)) (fl (1 / 2)))"
    by (rule round2_mono)
  then show ?thesis by (simp only: top_4)
qed

lemma above_20: "20 < v \<Longrightarrow> round2 (banded v) \<le> 3152519739159347 / 4503599627370496"
proof (cases "v \<le> 40")
  case True
  assume a: "20 < v"
  have "0 \<le> fl (fl (1 / 100) * fl (v - 20))"
    using a by (intro fl_nonneg mult_nonneg_nonneg) simp_all
  then have "fl (fl (7 / 10) - fl (fl (1 / 100) * fl (v - 20))) \<le> fl (fl (7 / 10))"
    by (intro fl_mono) simp
  then have "banded v \<le> fl (fl (7 / 10))"
    using a True by (simp add: banded_def)
  then have "round2 (banded v) \<le> round2 (fl (fl (7 / 10)))"
    by (rule round2_mono)
  then show ?thesis by (simp only: top_3)
next
  case False
  then have "round2 (banded v) \<le> 1 / 2" by (intro above_40) simp
  then show ?thesis by simp
qed

lemma above_10: "10 < v \<Longrightarrow> round2 (banded v) \<le> 8106479329266893 / 9007199254740992"
proof (cases "v \<le> 20")
  case True
  assume a: "10 < v"
  have "0 \<le> fl (fl (2 / 100) * fl (v - 10))"
    using a by (intro fl_nonneg mult_nonneg_nonneg) simp_all
  then have "fl (fl (9 / 10) - fl (fl (2 / 100) * fl (v - 10))) \<le> fl (fl (9 / 10))"
    by (intro fl_mono) simp
  then have "banded v \<le> fl (fl (9 / 10))"
    using a True by (simp add: banded_def)
  then have "round2 (banded v) \<le> round2 (fl (fl (9 / 10)))"
    by (rule round2_mono)
  then show ?thesis by (simp only: top_2)
next
  case False
  then have "round2 (banded v) \<le> 3152519739159347 / 4503599627370496"
    by (intro above_20) simp
  then show ?thesis by simp
qed

lemma upto_10: "v \<le> 10 \<Longrightarrow> 8106479329266893 / 9007199254740992 \<le> round2 (banded v)"
  using round2_mono [OF banded_mono_1 [of v 10]] by (simp add: at_10)

lemma upto_20: "v \<le> 20 \<Longrightarrow> 3152519739159347 / 4503599627370496 \<le> round2 (banded v)"
proof (cases "v \<le> 10")
  case True
  then show ?thesis using upto_10 [of v] by simp
next
  case False
  assume "v \<le> 20"
  with False show ?thesis
    using round2_mono [OF banded_mono_2 [of v 20]] by (simp add: at_20)
qed

lemma upto_40: "v \<le> 40 \<Longrightarrow> 1 / 2 \<le> round2 (banded v)"
proof (cases "v \<le> 20")
  case True
  then show ?thesis using upto_20 [of v] by simp
next
  case False
  assume "v \<le> 40"
  with False show ?thesis
    using round2_mono [OF banded_mono_3 [of v 40]] by (simp add: at_40)
qed

lemma staged_antimono:
  assumes "v1 \<le> v2"
  shows "round2 (banded v2) \<le> round2 (banded v1)"
proof -
  consider "v2 \<le> 10" | "v1 \<le> 10" "10 < v2" | "10 < v1" "v2 \<le> 20" | "v1 \<le> 20" "20 < v2"
    | "20 < v1" "v2 \<le> 40" | "v1 \<le> 40" "40 < v2" | "40 < v1"
    by linarith
  then show ?thesis
  proof cases
    case 1
    then show ?thesis using assms by (intro round2_mono banded_mono_1)
  next
    case 2
    then show ?thesis using upto_10 [of v1] above_10 [of v2] by simp
  next
    case 3
    then show ?thesis using assms by (intro round2_mono banded_mono_2)
  next
    case 4
    then show ?thesis using upto_20 [of v1] above_20 [of v2] by simp
  next
    case 5
    then show ?thesis using assms by (intro round2_mono banded_mono_3)
  next
    case 6
    then show ?thesis using upto_40 [of v1] above_40 [of v2] by simp
  next
    case 7
    then show ?thesis using assms by (intro round2_mono banded_mono_4)
  qed
qed

text \<open>
  C5. Confidence is non-increasing in the variance, everywhere and after the rounding to
  two decimal places: whenever the variance \<open>|s1 - r1|\<close> of one score pair is at most
  the variance \<open>|s2 - r2|\<close> of another (in particular when it is smaller), the
  confidence of the first pair is at least the confidence of the second.
\<close>

theorem confidence_monotone:
  assumes "\<bar>s1 - r1\<bar> \<le> \<bar>s2 - r2\<bar>"
  shows "confidenceFromVariance s2 r2 \<le> confidenceFromVariance s1 r1"
proof -
  have "\<bar>fl (s1 - r1)\<bar> \<le> \<bar>fl (s2 - r2)\<bar>"
    using assms by (simp only: abs_fl fl_mono)
  then show ?thesis
    by (simp only: confidenceFromVariance_staged staged_antimono)
qed

theorem confidence_monotone_witness:
  "\<bar>80 - 72\<bar> \<le> \<bar>85 - (45::real)\<bar>
   \<and> confidenceFromVariance 85 45 \<le> confidenceFromVariance 80 72"
  using confidence_monotone [of 80 72 85 45] by simp

text \<open>The result always lies between 0.10 and 1.00.\<close>

lemma confidence_range:
  "1 / 10 \<le> confidenceFromVariance s r \<and> confidenceFromVariance s r \<le> 1"
proof -
  define v where "v = \<bar>fl (s - r)\<bar>"
  have "round2 (banded v) \<le> round2 (banded 0)"
    by (rule staged_antimono) (simp add: v_def)
  then have hi: "round2 (banded v) \<le> 1" by (simp only: at_0)
  have lo: "1 / 10 \<le> round2 (banded v)"
  proof (cases "v \<le> 40")
    case True
    then show ?thesis using upto_40 [of v] by simp
  next
    case False
    then have "fl (1 / 10) \<le> banded v" by (simp add: banded_def)
    then have "round2 (fl (1 / 10)) \<le> round2 (banded v)" by (rule round2_mono)
    then show ?thesis by (simp add: floor_4)
  qed
  from lo hi show ?thesis by (simp only: confidenceFromVariance_staged v_def)
qed


section \<open>Confidence is symmetric in its arguments\<close>

text \<open>
  C8. \<^verbatim>\<open>confidenceFromVariance(a, b)\<close> equals \<^verbatim>\<open>confidenceFromVariance(b, a)\<close> for all
  scores \<open>a\<close> and \<open>b\<close>: the two calls compute the same variance, because the rounded
  difference \<open>b - a\<close> is the negation of the rounded difference \<open>a - b\<close>.
\<close>

theorem confidenceFromVariance_symmetric:
  "confidenceFromVariance a b = confidenceFromVariance b a"
proof -
  have "fl (a - b) = - fl (b - a)"
    using fl_minus [of "b - a"] by simp
  then have "\<bar>fl (a - b)\<bar> = \<bar>fl (b - a)\<bar>"
    by simp
  then show ?thesis
    by (simp only: confidenceFromVariance_def)
qed


section \<open>The law of the specification at variance 75\<close>

lemma variance_75: "\<bar>fl (100 - 25)\<bar> = 75"
  by (simp add: fl_eval)

lemma steps_at_75:
  "fl (fl (5 / 1000) * fl (75 - 40)) = 6305039478318695 / 36028797018963968"
  "fl (1 / 2 - 6305039478318695 / 36028797018963968) = 1463669878895411 / 4503599627370496"
  "fl (1463669878895411 / 4503599627370496 * 100) = 4573968371548159 / 140737488355328"
  "js_round (4573968371548159 / 140737488355328) = 32"
  by (simp_all add: js_round_def fl_eval)

lemma at_75: "round2 (banded 75) = 5764607523034235 / 18014398509481984"
  by (simp add: banded_def round2_def js_round_def fl_eval)

lemma fl_032: "fl (32 / 100) = 5764607523034235 / 18014398509481984"
  by (simp add: fl_eval)

lemma fl_033: "fl (33 / 100) = 5944751508129055 / 18014398509481984"
  by (simp add: fl_eval)

lemma law_at_75: "confidence_law 100 25 = 33 / 100"
  by (simp add: confidence_law_def)

text \<open>
  C2. At \<open>sales = 100\<close>, \<open>risk = 25\<close> the variance is 75 and the law gives
  \<open>0.50 - 0.005 \<sqdot> 35 = 0.325\<close>, which rounds half-up to 0.33. The code computes
  \<^verbatim>\<open>0.005 * 35\<close> as 0.17500000000000002, \<^verbatim>\<open>0.5 -\<close> that as 0.32499999999999996 and its
  hundredfold as 32.49999999999999, which \<^verbatim>\<open>Math.round\<close> takes to 32: the result is the
  double 0.32, not 0.33.
\<close>

theorem confidence_at_100_25:
  "confidenceFromVariance 100 25 = fl (32 / 100) \<and> confidence_law 100 25 = 33 / 100
   \<and> confidenceFromVariance 100 25 \<noteq> fl (confidence_law 100 25)"
  by (simp only: confidenceFromVariance_staged variance_75 at_75 law_at_75 fl_032 fl_033) simp

text \<open>
  At every other whole variance from 0 to 100 the code agrees with the law; it falls one
  hundredth short at 75, 95 and 97, where the exact value of the law is a tie.
\<close>

lemma agreement_0_20:
  "list_all agrees_with_law
     [0, 1, 2, 3, 4, 5, 6, 7, 8, 9, 10,
      11, 12, 13, 14, 15, 16, 17, 18, 19, 20]"
  by (simp add: agrees_with_law_def banded_def round2_def js_round_def confidence_law_def fl_eval)

lemma agreement_21_40:
  "list_all agrees_with_law
     [21, 22, 23, 24, 25, 26, 27, 28, 29, 30, 31,
      32, 33, 34, 35, 36, 37, 38, 39, 40]"
  by (simp add: agrees_with_law_def banded_def round2_def js_round_def confidence_law_def fl_eval)

lemma agreement_41_60:
  "list_all agrees_with_law
     [41, 42, 43, 44, 45, 46, 47, 48, 49, 50, 51,
      52, 53, 54, 55, 56, 57, 58, 59, 60]"
  by (simp add: agrees_with_law_def banded_def round2_def js_round_def confidence_law_def fl_eval)

lemma agreement_61_80:
  "list_all agrees_with_law
     [61, 62, 63, 64, 65, 66, 67, 68, 69, 70, 71,
      72, 73, 74, 76, 77, 78, 79, 80]"
  by (simp add: agrees_with_law_def banded_def round2_def js_round_def confidence_law_def fl_eval)

lemma agreement_81_100:
  "list_all agrees_with_law
     [81, 82, 83, 84, 85, 86, 87, 88, 89, 90, 91,
      92, 93, 94, 96, 98, 99, 100]"
  by (simp add: agrees_with_law_def banded_def round2_def js_round_def confidence_law_def fl_eval)

lemma disagreement_75_95_97:
  "\<not> agrees_with_law 75" "\<not> agrees_with_law 95" "\<not> agrees_with_law 97"
  by (simp_all add: agrees_with_law_def banded_def round2_def js_round_def confidence_law_def fl_eval)


section \<open>applyConfidence\<close>

lemma applyConfidence_keeps:
  "status (loan (applyConfidence c)) = status (loan c)"
  "final_score (loan (applyConfidence c)) = final_score (loan c)"
  "compliance_flag (loan (applyConfidence c)) = compliance_flag (loan c)"
  "workflow_state (loan (applyConfidence c)) = workflow_state (loan c)"
  "memos (applyConfidence c) = memos c"
  "riskMatrix (applyConfidence c) = riskMatrix c"
  by (simp_all add: applyConfidence_def Let_def split: option.split)

lemma applyConfidence_veto:
  "compliance_flag (loan c) \<Longrightarrow> confidence_score (loan (applyConfidence c)) = Some 1"
  by (simp add: applyConfidence_def)

lemma applyConfidence_scored:
  assumes "\<not> compliance_flag (loan c)"
    and "Option.bind (find (\<lambda>m. agent_type m = Sales) (memos c)) risk_score = Some s"
    and "Option.bind (find (\<lambda>m. agent_type m = Risk) (memos c)) risk_score = Some r"
  shows "confidence_score (loan (applyConfidence c)) = Some (confidenceFromVariance s r)"
  using assms by (simp add: applyConfidence_def Let_def)

text \<open>
  C7. For a loan whose \<^verbatim>\<open>compliance_flag\<close> is false, when the Sales memo or its
  \<^verbatim>\<open>risk_score\<close> is missing, or the Risk memo or its \<^verbatim>\<open>risk_score\<close> is missing,
  \<^verbatim>\<open>applyConfidence\<close> returns the case as it received it: no confidence is computed, and a
  \<^verbatim>\<open>confidence_score\<close> that was null or undefined stays so.
\<close>

theorem applyConfidence_missing_score:
  assumes "\<not> compliance_flag (loan c)"
    and "Option.bind (find (\<lambda>m. agent_type m = Sales) (memos c)) risk_score = None
         \<or> Option.bind (find (\<lambda>m. agent_type m = Risk) (memos c)) risk_score = None"
  shows "applyConfidence c = c
         \<and> (confidence_score (loan c) = None
              \<longrightarrow> confidence_score (loan (applyConfidence c)) = None)"
  using assms by (auto simp add: applyConfidence_def Let_def split: option.split)

text \<open>The witness is demo case 3 with its Sales memo removed.\<close>

theorem applyConfidence_missing_score_witness:
  "\<not> compliance_flag (loan (case_3\<lparr>memos := tl (memos case_3)\<rparr>))
   \<and> Option.bind (find (\<lambda>m. agent_type m = Sales) (memos (case_3\<lparr>memos := tl (memos case_3)\<rparr>)))
         risk_score = None
   \<and> confidence_score (loan (case_3\<lparr>memos := tl (memos case_3)\<rparr>)) = None
   \<and> applyConfidence (case_3\<lparr>memos := tl (memos case_3)\<rparr>) = case_3\<lparr>memos := tl (memos case_3)\<rparr>
   \<and> confidence_score (loan (applyConfidence (case_3\<lparr>memos := tl (memos case_3)\<rparr>))) = None"
  using applyConfidence_missing_score [of "case_3\<lparr>memos := tl (memos case_3)\<rparr>"]
  by (simp add: case_3_def)


section \<open>The loan records in the sources\<close>

lemma demo_case_fields:
  "map (\<lambda>c. (loan_id (loan c), compliance_flag (loan c), status (loan c), final_score (loan c)))
     DEMO_CASES =
   [(''case-1'', False, Rejected, Some 16), (''case-2'', True, Rejected, Some 0),
    (''case-3'', False, Rejected, Some 12), (''case-4'', False, Approved, Some (fl (204 / 10)))]"
  by (simp add: DEMO_CASES_def applyConfidence_def Let_def case_1_def case_2_def case_3_def case_4_def)

text \<open>The demo case with the compliance flag is rejected with score 0 and confidence 1.\<close>

lemma demo_case_2_veto:
  "compliance_flag (loan (DEMO_CASES ! 1)) \<and> status (loan (DEMO_CASES ! 1)) = Rejected
   \<and> final_score (loan (DEMO_CASES ! 1)) = Some 0
   \<and> confidence_score (loan (DEMO_CASES ! 1)) = Some 1"
  by (simp add: DEMO_CASES_def applyConfidence_keeps applyConfidence_veto case_2_def)

text \<open>
  C1. The mock loan \<^verbatim>\<open>demo-3\<close> (Gamma Holdings) has \<^verbatim>\<open>compliance_flag: true\<close>, status
  Rejected and confidence 1.0, but its \<^verbatim>\<open>final_score\<close> is 12.0 and not 0.0.
\<close>

theorem mock_demo_3_final_score:
  "loan_id (MOCK_LOANS ! 2) = ''demo-3'' \<and> compliance_flag (MOCK_LOANS ! 2)
   \<and> status (MOCK_LOANS ! 2) = Rejected \<and> confidence_score (MOCK_LOANS ! 2) = Some 1
   \<and> final_score (MOCK_LOANS ! 2) = Some 12 \<and> final_score (MOCK_LOANS ! 2) \<noteq> Some 0"
  by (simp add: MOCK_LOANS_def)

lemma fl_whole: "fl 30 = 30" "fl 14 = 14"
  by (simp_all add: fl_eval)

text \<open>
  C3. In demo case 3 the Sales score is 55 and the Risk score 25, a divergence of 30,
  and the memos hold no Moderator memo; in the fallback memos the scores are 72 and 58, a
  divergence of 14, and a Moderator memo is present.
\<close>

theorem moderator_not_tied_to_divergence:
  "Moderator \<notin> set (map agent_type (memos (DEMO_CASES ! 2)))
   \<and> Option.bind (find (\<lambda>m. agent_type m = Sales) (memos (DEMO_CASES ! 2))) risk_score = Some 55
   \<and> Option.bind (find (\<lambda>m. agent_type m = Risk) (memos (DEMO_CASES ! 2))) risk_score = Some 25
   \<and> 20 < \<bar>fl (55 - 25)\<bar>
   \<and> Moderator \<in> set (map agent_type FALLBACK_MEMOS)
   \<and> Option.bind (find (\<lambda>m. agent_type m = Sales) FALLBACK_MEMOS) risk_score = Some 72
   \<and> Option.bind (find (\<lambda>m. agent_type m = Risk) FALLBACK_MEMOS) risk_score = Some 58
   \<and> \<not> 20 < \<bar>fl (72 - 58)\<bar>"
  by (simp add: DEMO_CASES_def applyConfidence_keeps case_3_def FALLBACK_MEMOS_def fl_whole)

text \<open>Where a Moderator memo is present, it is the last memo, after the three round-0 memos.\<close>

lemma moderator_comes_last:
  "map agent_type (memos (DEMO_CASES ! 0)) = [Sales, Risk, Compliance, Moderator]"
  "map agent_type FALLBACK_MEMOS = [Sales, Risk, Compliance, Moderator]"
  by (simp_all add: DEMO_CASES_def applyConfidence_keeps case_1_def FALLBACK_MEMOS_def)

text \<open>The roles and scores of the other demo cases: case 2 diverges by 5 and has no
  Moderator memo, case 4 diverges by 51 and has none either, case 1 diverges by 40 and
  has one.\<close>

lemma other_debate_records:
  "map (\<lambda>m. (agent_type m, risk_score m)) (memos (DEMO_CASES ! 0)) =
     [(Sales, Some 85), (Risk, Some 45), (Compliance, Some 90), (Moderator, Some 62)]"
  "map (\<lambda>m. (agent_type m, risk_score m)) (memos (DEMO_CASES ! 1)) =
     [(Sales, Some 75), (Risk, Some 70), (Compliance, Some 15)]"
  "map (\<lambda>m. (agent_type m, risk_score m)) (memos (DEMO_CASES ! 3)) =
     [(Sales, Some 86), (Risk, Some 35), (Compliance, Some 88)]"
  by (simp_all add: DEMO_CASES_def applyConfidence_keeps case_1_def case_2_def case_4_def)

text \<open>The decision summary prints \<^verbatim>\<open>above\<close> exactly when the final score is at least 20.\<close>

lemma thresholdSide_above:
  "final_score l = Some s \<Longrightarrow> thresholdSide l = Some ''above'' \<longleftrightarrow> 20 \<le> s"
  by (simp add: thresholdSide_def)






section \<open>Round grouping\<close>

lemma foldl_group_step:
  "fst (foldl group_step (res, cnt) ms) =
     res @ map (\<lambda>i. \<lparr>round_no =
                        (case cnt (agent_type (ms ! i)) of None \<Rightarrow> 0 | Some n \<Rightarrow> n)
                        + length (filter (\<lambda>m'. agent_type m' = agent_type (ms ! i)) (take i ms)),
                      memo = ms ! i\<rparr>) [0..<length ms]"
proof (induction ms arbitrary: res cnt)
  case Nil
  then show ?case by simp
next
  case (Cons m ms)
  let ?c = "case cnt (agent_type m) of None \<Rightarrow> 0 | Some n \<Rightarrow> n"
  have step: "group_step (res, cnt) m =
      (res @ [\<lparr>round_no = ?c, memo = m\<rparr>], cnt(agent_type m \<mapsto> ?c + 1))"
    by (simp add: group_step_def Let_def)
  have "fst (foldl group_step (res, cnt) (m # ms)) =
      fst (foldl group_step (res @ [\<lparr>round_no = ?c, memo = m\<rparr>], cnt(agent_type m \<mapsto> ?c + 1)) ms)"
    by (simp only: foldl_Cons step)
  also have "\<dots> = res @ \<lparr>round_no = ?c, memo = m\<rparr> #
      map (\<lambda>i. \<lparr>round_no =
                 (case (cnt(agent_type m \<mapsto> ?c + 1)) (agent_type (ms ! i)) of None \<Rightarrow> 0 | Some n \<Rightarrow> n)
                 + length (filter (\<lambda>m'. agent_type m' = agent_type (ms ! i)) (take i ms)),
               memo = ms ! i\<rparr>) [0..<length ms]"
    by (simp only: Cons.IH append_assoc append_Cons append_Nil)
  also have "\<dots> = res @ map (\<lambda>i. \<lparr>round_no =
                 (case cnt (agent_type ((m # ms) ! i)) of None \<Rightarrow> 0 | Some n \<Rightarrow> n)
                 + length (filter (\<lambda>m'. agent_type m' = agent_type ((m # ms) ! i)) (take i (m # ms))),
               memo = (m # ms) ! i\<rparr>) [0..<length (m # ms)]"
    by (auto simp: map_upt_Suc simp del: upt_Suc)
  finally show ?case .
qed

text \<open>
  C6. \<^verbatim>\<open>groupIntoRounds\<close> keeps the memos in their given order and gives the memo at
  position \<open>i\<close> the round index that counts the earlier memos (those before position
  \<open>i\<close>) of the same \<^verbatim>\<open>agent_type\<close>: the first memo of a role gets round 0, its second
  round 1, and so on.
\<close>

theorem groupIntoRounds_occurrence_index:
  "groupIntoRounds ms =
     map (\<lambda>i. \<lparr>round_no = length (filter (\<lambda>m'. agent_type m' = agent_type (ms ! i)) (take i ms)),
               memo = ms ! i\<rparr>) [0..<length ms]"
  by (simp add: groupIntoRounds_def foldl_group_step)

text \<open>
  C9. Projecting the \<^verbatim>\<open>memo\<close> field out of the result of \<^verbatim>\<open>groupIntoRounds\<close> gives back
  the input list: the same length, the same memos, in the same order.
\<close>

theorem groupIntoRounds_preserves_memos:
  "map memo (groupIntoRounds ms) = ms \<and> length (groupIntoRounds ms) = length ms"
  by (simp add: groupIntoRounds_def foldl_group_step o_def map_nth)


section \<open>The overall-risk gauge\<close>

text \<open>
  C10. The overall risk that the risk panel displays,
  \<^verbatim>\<open>Math.min(10, Math.max(1, aggregateRisk(riskMatrix)))\<close>, lies between 1 and 10 for
  every risk matrix with numeric scores.
\<close>

theorem overallRisk_bounds: "1 \<le> overallRisk rm \<and> overallRisk rm \<le> 10"
  by (simp add: overallRisk_def)

end
